theory Spec2Isabelle
  imports Complex_Main
begin

section \<open>Python strings\<close>

text \<open>
  \<^verbatim>\<open>str.split(sep)\<close> for a one-character separator: the pieces between the
  separators, empty pieces kept, so the empty string gives one empty piece.
\<close>

fun py_split :: "char \<Rightarrow> string \<Rightarrow> string list" where
  "py_split c [] = [[]]"
| "py_split c (x # xs) =
     (if x = c then [] # py_split c xs
      else (case py_split c xs of
              [] \<Rightarrow> [[x]]
            | t # ts \<Rightarrow> (x # t) # ts))"

text \<open>\<^verbatim>\<open>sep.join(xs)\<close>\<close>

fun py_join :: "string \<Rightarrow> string list \<Rightarrow> string" where
  "py_join sep [] = []"
| "py_join sep [x] = x"
| "py_join sep (x # y # ys) = x @ sep @ py_join sep (y # ys)"

text \<open>\<^verbatim>\<open>s.startswith(prefix)\<close>\<close>

definition startswith :: "string \<Rightarrow> string \<Rightarrow> bool" where
  "startswith s pre = (take (length pre) s = pre)"

text \<open>\<^verbatim>\<open>str(n)\<close> for an int: decimal digits, a minus sign for a negative number.\<close>

fun py_str_nat :: "nat \<Rightarrow> string" where
  "py_str_nat n =
     (if n < 10 then [''0123456789'' ! n]
      else py_str_nat (n div 10) @ [''0123456789'' ! (n mod 10)])"

declare py_str_nat.simps [simp del]

definition py_str_int :: "int \<Rightarrow> string" where
  "py_str_int i = (if i < 0 then CHR ''-'' # py_str_nat (nat (- i)) else py_str_nat (nat i))"

section \<open>Python values\<close>

text \<open>
  The exceptions the program can meet. The program defines no exception class of its own:
  a failure is the built-in exception of the operation that failed.
\<close>

datatype error =
    KeyError | TypeError | ValueError | OverflowError | AttributeError | IndexError
  | JSONDecodeError | OSError | RuntimeError

text \<open>
  A Python \<^verbatim>\<open>float\<close>: a finite value, an infinity or NaN. Finite values are
  taken as real numbers, so rounding to 53 bits is not modelled.
\<close>

datatype pyfloat = Finite real | PosInf | NegInf | NaN

text \<open>
  What \<^verbatim>\<open>json.load\<close> returns and \<^verbatim>\<open>json.dump\<close> accepts. A dict is an
  association list in insertion order with one entry for each key.
\<close>

datatype json =
    JNull | JBool bool | JInt int | JFloat pyfloat | JStr string
  | JList "json list" | JObj "(string \<times> json) list"

text \<open>\<^verbatim>\<open>int(x)\<close> for a finite float: truncation toward zero.\<close>

definition py_trunc :: "real \<Rightarrow> int" where
  "py_trunc x = (if x < 0 then \<lceil>x\<rceil> else \<lfloor>x\<rfloor>)"

text \<open>\<^verbatim>\<open>range(n)\<close>: empty when \<open>n \<le> 0\<close>.\<close>

definition py_range :: "int \<Rightarrow> int list" where
  "py_range n = map int [0..<nat n]"

text \<open>\<^verbatim>\<open>xs[i]\<close> for \<open>i \<ge> 0\<close>: IndexError out of range.\<close>

definition py_index :: "'a list \<Rightarrow> nat \<Rightarrow> error + 'a" where
  "py_index xs i = (if i < length xs then Inr (xs ! i) else Inl IndexError)"

section \<open>pathlib (POSIX flavour)\<close>

text \<open>
  A path is its root (empty, \<^verbatim>\<open>/\<close> or \<^verbatim>\<open>//\<close>) and its components.
  \<^verbatim>\<open>Path(s)\<close> splits at the slashes and drops the empty components and the dots.
\<close>

datatype path = Path (anchor: string) (names: "string list")

definition path_of_str :: "string \<Rightarrow> path" where
  "path_of_str s =
     Path (if take 1 s \<noteq> ''/'' then []
           else if take 2 s = ''//'' \<and> take 3 s \<noteq> ''///'' then ''//''
           else ''/'')
          [t \<leftarrow> py_split (CHR ''/'') s. t \<noteq> [] \<and> t \<noteq> ''.'']"

definition is_absolute :: "path \<Rightarrow> bool" where
  "is_absolute p = (anchor p \<noteq> [])"

definition parent :: "path \<Rightarrow> path" where
  "parent p = (if names p = [] then p else Path (anchor p) (butlast (names p)))"

text \<open>\<^verbatim>\<open>a / b\<close>: an absolute right operand replaces the left one.\<close>

definition joinpath :: "path \<Rightarrow> path \<Rightarrow> path" where
  "joinpath a b = (if is_absolute b then b else Path (anchor a) (names a @ names b))"

definition py_str_path :: "path \<Rightarrow> string" where
  "py_str_path p =
     (if anchor p = [] \<and> names p = [] then ''.'' else anchor p @ py_join ''/'' (names p))"

section \<open>What the program takes from its platform\<close>

text \<open>
  The file system, the clock, the number parsers of Python and the torch library are not
  code of this repository. They are parameters of the model, and every theorem below
  holds for each value of them.
  \<^item> \<open>read_json p\<close>: opening \<open>p\<close> and \<^verbatim>\<open>json.load\<close>, an error when the file
    cannot be read or is not JSON;
  \<^item> \<open>resolve p\<close>: \<^verbatim>\<open>Path.resolve()\<close>, the absolute path of \<open>p\<close> with the
    symbolic links and \<^verbatim>\<open>..\<close> followed;
  \<^item> \<open>int_of_str\<close>, \<open>float_of_str\<close>: \<^verbatim>\<open>int(s)\<close> and \<^verbatim>\<open>float(s)\<close> on a string,
    \<open>None\<close> for the ValueError;
  \<^item> \<open>TORCH_AVAILABLE\<close>: whether \<^verbatim>\<open>import torch\<close> succeeded;
  \<^item> \<open>cuda_is_available\<close>: \<^verbatim>\<open>torch.cuda.is_available()\<close>;
  \<^item> \<open>torch_setup device cfg\<close>: whether building the device, the model, the optimizer
    and the loss function goes through;
  \<^item> \<open>torch_step step\<close>: the loss of one iteration of the training loop, \<open>None\<close> when
    torch raises in it;
  \<^item> \<open>time_time k\<close>: the Unix time at the \<open>k\<close>-th reading of the clock;
  \<^item> \<open>strftime_localtime\<close>, \<open>strftime_gmtime\<close>: \<^verbatim>\<open>time.strftime\<close> of a format and
    a time, in local time and in UTC.
\<close>

record TrainingConfig =
  dataset_index :: path
  checkpoint_dir :: path
  steps :: int
  batch_size :: int
  learning_rate :: pyfloat
  input_dim :: int
  output_dim :: int
  hidden_dim :: int
  notes_opt :: json

record platform =
  read_json :: "path \<Rightarrow> error + json"
  resolve :: "path \<Rightarrow> path"
  int_of_str :: "string \<Rightarrow> int option"
  float_of_str :: "string \<Rightarrow> pyfloat option"
  TORCH_AVAILABLE :: bool
  cuda_is_available :: bool
  torch_setup :: "string \<Rightarrow> TrainingConfig \<Rightarrow> bool"
  torch_step :: "int \<Rightarrow> pyfloat option"
  time_time :: "nat \<Rightarrow> real"
  strftime_localtime :: "string \<Rightarrow> real \<Rightarrow> string"
  strftime_gmtime :: "string \<Rightarrow> real \<Rightarrow> string"

section \<open>Conversions and dict access\<close>

text \<open>\<^verbatim>\<open>int(v)\<close>\<close>

fun py_int :: "platform \<Rightarrow> json \<Rightarrow> error + int" where
  "py_int P (JInt n) = Inr n"
| "py_int P (JBool b) = Inr (if b then 1 else 0)"
| "py_int P (JFloat (Finite x)) = Inr (py_trunc x)"
| "py_int P (JFloat NaN) = Inl ValueError"
| "py_int P (JFloat PosInf) = Inl OverflowError"
| "py_int P (JFloat NegInf) = Inl OverflowError"
| "py_int P (JStr s) = (case int_of_str P s of None \<Rightarrow> Inl ValueError | Some n \<Rightarrow> Inr n)"
| "py_int P JNull = Inl TypeError"
| "py_int P (JList xs) = Inl TypeError"
| "py_int P (JObj kvs) = Inl TypeError"

text \<open>
  \<^verbatim>\<open>float(v)\<close>. An int that rounds beyond the largest double is an OverflowError; the
  rounding of the others is not modelled.
\<close>

fun py_float :: "platform \<Rightarrow> json \<Rightarrow> error + pyfloat" where
  "py_float P (JFloat x) = Inr x"
| "py_float P (JInt n) =
     (if 2 ^ 1024 - 2 ^ 970 \<le> \<bar>n\<bar> then Inl OverflowError else Inr (Finite (real_of_int n)))"
| "py_float P (JBool b) = Inr (Finite (if b then 1 else 0))"
| "py_float P (JStr s) = (case float_of_str P s of None \<Rightarrow> Inl ValueError | Some x \<Rightarrow> Inr x)"
| "py_float P JNull = Inl TypeError"
| "py_float P (JList xs) = Inl TypeError"
| "py_float P (JObj kvs) = Inl TypeError"

text \<open>\<^verbatim>\<open>data[key]\<close> with a string key\<close>

fun py_getitem :: "json \<Rightarrow> string \<Rightarrow> error + json" where
  "py_getitem (JObj kvs) k = (case map_of kvs k of None \<Rightarrow> Inl KeyError | Some v \<Rightarrow> Inr v)"
| "py_getitem v k = Inl TypeError"

text \<open>\<^verbatim>\<open>data.get(key, default)\<close>: only a dict has the method.\<close>

definition dict_get :: "(string \<times> json) list \<Rightarrow> string \<Rightarrow> json \<Rightarrow> json" where
  "dict_get kvs k d = (case map_of kvs k of None \<Rightarrow> d | Some v \<Rightarrow> v)"

fun py_get :: "json \<Rightarrow> string \<Rightarrow> json \<Rightarrow> error + json" where
  "py_get (JObj kvs) k d = Inr (dict_get kvs k d)"
| "py_get v k d = Inl AttributeError"

text \<open>\<^verbatim>\<open>Path(value)\<close>: a TypeError unless the value is a string.\<close>

fun py_Path :: "json \<Rightarrow> error + path" where
  "py_Path (JStr s) = Inr (path_of_str s)"
| "py_Path v = Inl TypeError"

text \<open>Sequencing of operations that may raise.\<close>

definition bind :: "error + 'a \<Rightarrow> ('a \<Rightarrow> error + 'b) \<Rightarrow> error + 'b" where
  "bind m f = (case m of Inl e \<Rightarrow> Inl e | Inr v \<Rightarrow> f v)"

section \<open>config.py\<close>

text \<open>
  \<^verbatim>\<open>_load_json\<close>: the file is opened and parsed; the result need not be a dict.
\<close>

definition load_json :: "platform \<Rightarrow> path \<Rightarrow> error + json" where
  "load_json P p = read_json P p"

text \<open>
  \<^verbatim>\<open>
  def _resolve(base, value):
      path = Path(value)
      if path.is_absolute():
          return path
      return (base.parent / path).resolve()
  \<close>
\<close>

definition resolve_value :: "platform \<Rightarrow> path \<Rightarrow> json \<Rightarrow> error + path" where
  "resolve_value P base v =
     bind (py_Path v) (\<lambda>p.
       if is_absolute p then Inr p
       else Inr (resolve P (joinpath (parent base) p)))"

text \<open>
  \<^verbatim>\<open>from_file\<close>: the keyword arguments are evaluated in the order they are written, so
  the first failing one decides the exception.
\<close>

definition from_file :: "platform \<Rightarrow> path \<Rightarrow> error + TrainingConfig" where
  "from_file P p =
     bind (load_json P p) (\<lambda>data.
     bind (bind (py_getitem data ''dataset_index'') (resolve_value P p)) (\<lambda>di.
     bind (bind (py_getitem data ''checkpoint_dir'') (resolve_value P p)) (\<lambda>cd.
     bind (bind (py_get data ''steps'' (JInt 100)) (py_int P)) (\<lambda>st.
     bind (bind (py_get data ''batch_size'' (JInt 32)) (py_int P)) (\<lambda>bs.
     bind (bind (py_get data ''learning_rate'' (JFloat (Finite (1 / 1000)))) (py_float P)) (\<lambda>lr.
     bind (bind (py_get data ''input_dim'' (JInt 128)) (py_int P)) (\<lambda>idim.
     bind (bind (py_get data ''output_dim'' (JInt 64)) (py_int P)) (\<lambda>odim.
     bind (bind (py_get data ''hidden_dim'' (JInt 128)) (py_int P)) (\<lambda>hdim.
     bind (py_get data ''notes'' JNull) (\<lambda>nt.
       Inr \<lparr>dataset_index = di, checkpoint_dir = cd, steps = st, batch_size = bs,
            learning_rate = lr, input_dim = idim, output_dim = odim, hidden_dim = hdim,
            notes_opt = nt\<rparr>))))))))))"

section \<open>trainer.py\<close>

record RunnerContext =
  config :: TrainingConfig
  devices :: "string list"
  weights :: "path option"
  profile :: string
  log_file :: path

text \<open>
  What a session changes: the log files (each a list of JSON lines, a file that does not
  exist being the empty list), the metadata files written whole, the directories made,
  the process environment, and the number of clock readings taken so far. The log file
  and the metadata files are kept apart: the log is not one of the metadata files of its
  own run. Writing to a file is taken to succeed.
\<close>

record world =
  logs :: "path \<Rightarrow> json list"
  files :: "path \<Rightarrow> json option"
  dirs :: "path set"
  environ :: "string \<Rightarrow> string option"
  clock :: nat

text \<open>
  \<^verbatim>\<open>p.mkdir(parents=True, exist_ok=True)\<close>: the directory and its ancestors are there
  afterwards, and what was there before stays.
\<close>

definition ancestors :: "path \<Rightarrow> path set" where
  "ancestors p = set (map (\<lambda>k. Path (anchor p) (take k (names p))) [0..<Suc (length (names p))])"

definition mkdir_parents :: "path \<Rightarrow> world \<Rightarrow> world" where
  "mkdir_parents p w = w\<lparr>dirs := dirs w \<union> ancestors p\<rparr>"

text \<open>\<^verbatim>\<open>TrainingSession.__init__\<close>\<close>

definition TrainingSession_init :: "RunnerContext \<Rightarrow> world \<Rightarrow> world" where
  "TrainingSession_init ctx w = mkdir_parents (parent (log_file ctx)) w"

text \<open>
  \<^verbatim>\<open>_log\<close>: one record appended to the log file; the timestamp is one reading of the
  clock.
\<close>

definition log_event :: "platform \<Rightarrow> RunnerContext \<Rightarrow> string \<Rightarrow> (string \<times> json) list \<Rightarrow> world \<Rightarrow> world" where
  "log_event P ctx event payload w =
     (let record = JObj [(''event'', JStr event),
                         (''timestamp'',
                          JStr (strftime_localtime P ''%Y-%m-%dT%H:%M:%S%z'' (time_time P (clock w)))),
                         (''payload'', JObj payload)]
      in w\<lparr>logs := (logs w)(log_file ctx := logs w (log_file ctx) @ [record]),
            clock := Suc (clock w)\<rparr>)"

text \<open>\<^verbatim>\<open>f"checkpoint-{int(time.time())}"\<close> when \<^verbatim>\<open>time.time()\<close> returns \<open>t\<close>\<close>

definition checkpoint_id :: "real \<Rightarrow> string" where
  "checkpoint_id t = ''checkpoint-'' @ py_str_int (py_trunc t)"

text \<open>
  \<^verbatim>\<open>_write_checkpoint\<close>: the clock is read for the identifier and again for
  \<^verbatim>\<open>created_at\<close>.
\<close>

definition write_checkpoint :: "platform \<Rightarrow> RunnerContext \<Rightarrow> world \<Rightarrow> world" where
  "write_checkpoint P ctx w =
     (let ident = checkpoint_id (time_time P (clock w));
          meta = [(''id'', JStr ident),
                  (''model'', JStr ''pytorch_runner_stub''),
                  (''created_at'',
                   JStr (strftime_gmtime P ''%Y-%m-%dT%H:%M:%SZ'' (time_time P (Suc (clock w))))),
                  (''training_step'', JInt (steps (config ctx))),
                  (''devices'', JList (map JStr (devices ctx))),
                  (''notes'', notes_opt (config ctx))];
          w1 = mkdir_parents (checkpoint_dir (config ctx)) (w\<lparr>clock := Suc (Suc (clock w))\<rparr>);
          meta_path = joinpath (checkpoint_dir (config ctx)) (path_of_str (ident @ ''.meta.json''));
          w2 = w1\<lparr>files := (files w1)(meta_path \<mapsto> JObj meta)\<rparr>
      in log_event P ctx ''checkpoint'' [(''meta'', JStr (py_str_path meta_path))] w2)"

text \<open>
  \<^verbatim>\<open>
  def _simulate(self):
      loss = 1.0
      for step in range(self.ctx.config.steps):
          loss *= 0.99
          if step % 10 == 0:
              self._log("step", {"step": step, "loss": loss, "simulated": True})
          time.sleep(0.01)
      self._write_checkpoint()
  \<close>
  The loop runs over the list \<^verbatim>\<open>range(steps)\<close> with the loss as accumulator. The
  sleep changes nothing but the time, which the clock readings stand for.
\<close>

fun simulate_loop :: "platform \<Rightarrow> RunnerContext \<Rightarrow> int list \<Rightarrow> real \<Rightarrow> world \<Rightarrow> world" where
  "simulate_loop P ctx [] loss w = w"
| "simulate_loop P ctx (step # rest) loss w =
     (let loss' = loss * (99 / 100);
          w' = (if step mod 10 = 0
                then log_event P ctx ''step''
                       [(''step'', JInt step), (''loss'', JFloat (Finite loss')),
                        (''simulated'', JBool True)] w
                else w)
      in simulate_loop P ctx rest loss' w')"

definition simulate :: "platform \<Rightarrow> RunnerContext \<Rightarrow> world \<Rightarrow> world" where
  "simulate P ctx w =
     write_checkpoint P ctx (simulate_loop P ctx (py_range (steps (config ctx))) 1 w)"

text \<open>
  \<^verbatim>\<open>
  def _select_torch_device(self):
      if self.ctx.devices:
          preferred = self.ctx.devices[0]
          if preferred.startswith("cuda") and torch.cuda.is_available():
              ordinal = preferred.split(":")[1] if ":" in preferred else "0"
              os.environ["CUDA_VISIBLE_DEVICES"] = ordinal
              return "cuda:0"
      return "cpu"
  \<close>
\<close>

definition select_torch_device :: "platform \<Rightarrow> RunnerContext \<Rightarrow> world \<Rightarrow> error + string \<times> world" where
  "select_torch_device P ctx w =
     (case devices ctx of
        [] \<Rightarrow> Inr (''cpu'', w)
      | preferred # _ \<Rightarrow>
          if startswith preferred ''cuda'' \<and> cuda_is_available P
          then bind (if CHR '':'' \<in> set preferred
                     then py_index (py_split (CHR '':'') preferred) 1
                     else Inr ''0'')
                 (\<lambda>ordinal.
                    Inr (''cuda:0'',
                         w\<lparr>environ := (environ w)(''CUDA_VISIBLE_DEVICES'' \<mapsto> ordinal)\<rparr>))
          else Inr (''cpu'', w))"

text \<open>
  The loop of \<^verbatim>\<open>_run_torch\<close>. An exception leaves the loop at once; what was logged
  before stays in the log.
\<close>

fun torch_loop :: "platform \<Rightarrow> RunnerContext \<Rightarrow> int list \<Rightarrow> world \<Rightarrow> world \<times> error option" where
  "torch_loop P ctx [] w = (w, None)"
| "torch_loop P ctx (step # rest) w =
     (case torch_step P step of
        None \<Rightarrow> (w, Some RuntimeError)
      | Some loss \<Rightarrow>
          torch_loop P ctx rest
            (if step mod 10 = 0
             then log_event P ctx ''step'' [(''step'', JInt step), (''loss'', JFloat loss)] w
             else w))"

definition run_torch :: "platform \<Rightarrow> RunnerContext \<Rightarrow> world \<Rightarrow> world \<times> error option" where
  "run_torch P ctx w =
     (case select_torch_device P ctx w of
        Inl e \<Rightarrow> (w, Some e)
      | Inr (device, w1) \<Rightarrow>
          if \<not> torch_setup P device (config ctx) then (w1, Some RuntimeError)
          else (case torch_loop P ctx (py_range (steps (config ctx))) w1 of
                  (w2, Some e) \<Rightarrow> (w2, Some e)
                | (w2, None) \<Rightarrow> (write_checkpoint P ctx w2, None)))"

text \<open>
  \<^verbatim>\<open>
  def run(self):
      self._log("session_start", {"profile": self.ctx.profile, "devices": self.ctx.devices})
      if TORCH_AVAILABLE:
          self._run_torch()
      else:
          self._simulate()
      self._log("session_complete", {})
  \<close>
  The result is the world the call leaves and the exception it ends with, if any.
\<close>

definition run :: "platform \<Rightarrow> RunnerContext \<Rightarrow> world \<Rightarrow> world \<times> error option" where
  "run P ctx w =
     (let w1 = log_event P ctx ''session_start''
                 [(''profile'', JStr (profile ctx)),
                  (''devices'', JList (map JStr (devices ctx)))] w
      in case (if TORCH_AVAILABLE P then run_torch P ctx w1 else (simulate P ctx w1, None)) of
           (w2, Some e) \<Rightarrow> (w2, Some e)
         | (w2, None) \<Rightarrow> (log_event P ctx ''session_complete'' [] w2, None))"

section \<open>main.py\<close>

record args =
  args_config :: path
  args_weights :: "path option"
  args_devices :: string
  args_profile :: string
  args_log_file :: path

text \<open>
  \<^verbatim>\<open>devices = [token for token in args.devices.split(",") if token]\<close>
\<close>

definition device_tokens :: "string \<Rightarrow> string list" where
  "device_tokens s = [token \<leftarrow> py_split (CHR '','') s. token \<noteq> []]"

text \<open>\<^verbatim>\<open>main\<close>: the exit status 0, or the exception that ends the process.\<close>

definition main :: "platform \<Rightarrow> args \<Rightarrow> world \<Rightarrow> world \<times> (error + int)" where
  "main P a w =
     (case from_file P (args_config a) of
        Inl e \<Rightarrow> (w, Inl e)
      | Inr cfg \<Rightarrow>
          (let ctx = \<lparr>config = cfg, devices = device_tokens (args_devices a),
                      weights = args_weights a, profile = args_profile a,
                      log_file = args_log_file a\<rparr>;
               w1 = TrainingSession_init ctx w
           in case run P ctx w1 of
                (w2, Some e) \<Rightarrow> (w2, Inl e)
              | (w2, None) \<Rightarrow> (w2, Inr 0)))"

section \<open>Reading the log and the metadata\<close>

text \<open>The fields of a log record, and the step index and the loss its payload carries.\<close>

fun field :: "string \<Rightarrow> json \<Rightarrow> json option" where
  "field k (JObj kvs) = map_of kvs k"
| "field k v = None"

definition event_of :: "json \<Rightarrow> json option" where
  "event_of r = field ''event'' r"

definition payload_of :: "json \<Rightarrow> json option" where
  "payload_of r = field ''payload'' r"

definition step_of :: "json \<Rightarrow> json option" where
  "step_of r = Option.bind (payload_of r) (field ''step'')"

definition loss_of :: "json \<Rightarrow> json option" where
  "loss_of r = Option.bind (payload_of r) (field ''loss'')"

text \<open>The steps of a list at which the loops log: \<^verbatim>\<open>step % 10 == 0\<close>.\<close>

definition logged_steps :: "int list \<Rightarrow> int list" where
  "logged_steps xs = [step \<leftarrow> xs. step mod 10 = 0]"

text \<open>The records a call appended to a log file that held \<open>before\<close>.\<close>

definition appended :: "json list \<Rightarrow> json list \<Rightarrow> json list" where
  "appended before after = drop (length before) after"

section \<open>The bounds the specification gives for a configuration\<close>

text \<open>\<^verbatim>\<open>x > 0\<close> on a float\<close>

fun float_pos :: "pyfloat \<Rightarrow> bool" where
  "float_pos (Finite x) = (0 < x)"
| "float_pos PosInf = True"
| "float_pos NegInf = False"
| "float_pos NaN = False"

text \<open>
  In the words of the specification: step count at least 0, batch size, learning rate
  and the three dimensions above 0. No function of the program computes this.
\<close>

definition spec_bounds :: "TrainingConfig \<Rightarrow> bool" where
  "spec_bounds cfg =
     (0 \<le> steps cfg \<and> 0 < batch_size cfg \<and> float_pos (learning_rate cfg)
      \<and> 0 < input_dim cfg \<and> 0 < output_dim cfg \<and> 0 < hidden_dim cfg)"

section \<open>Examples\<close>

text \<open>
  A platform, a configuration file and a context to run examples on. The file holds the
  two required keys and the entries given; no example converts a string to a number.
\<close>

definition example_doc :: "(string \<times> json) list \<Rightarrow> json" where
  "example_doc extra =
     JObj ([(''dataset_index'', JStr ''d/x''), (''checkpoint_dir'', JStr ''/c'')] @ extra)"

definition example_path :: path where
  "example_path = Path ''/'' [''etc'', ''cfg.json'']"

definition example_platform :: "bool \<Rightarrow> json \<Rightarrow> platform" where
  "example_platform torch doc =
     \<lparr>read_json = (\<lambda>p. Inr doc), resolve = (\<lambda>p. p),
      int_of_str = (\<lambda>s. None), float_of_str = (\<lambda>s. None),
      TORCH_AVAILABLE = torch, cuda_is_available = False,
      torch_setup = (\<lambda>device cfg. True), torch_step = (\<lambda>step. Some (Finite (1 / 2))),
      time_time = (\<lambda>k. 1700000000 + real k / 4),
      strftime_localtime = (\<lambda>fmt t. []), strftime_gmtime = (\<lambda>fmt t. [])\<rparr>"

definition example_config :: "int \<Rightarrow> TrainingConfig" where
  "example_config n =
     \<lparr>dataset_index = Path ''/'' [''data'', ''index.json''],
      checkpoint_dir = Path ''/'' [''ckpt''],
      steps = n, batch_size = 4, learning_rate = Finite (1 / 1000),
      input_dim = 8, output_dim = 4, hidden_dim = 16, notes_opt = JNull\<rparr>"

definition example_ctx :: "int \<Rightarrow> string list \<Rightarrow> RunnerContext" where
  "example_ctx n ds =
     \<lparr>config = example_config n, devices = ds, weights = None, profile = ''prod'',
      log_file = Path ''/'' [''logs'', ''run.jsonl'']\<rparr>"

definition empty_world :: world where
  "empty_world = \<lparr>logs = (\<lambda>p. []), files = (\<lambda>p. None), dirs = {}, environ = (\<lambda>k. None), clock = 0\<rparr>"

section \<open>Properties of the device list\<close>

lemma py_split_not_Nil: "py_split c s \<noteq> []"
  by (induction s) (auto split: list.splits)

lemma py_split_append_sep:
  "py_split c (a @ c # b) = py_split c a @ py_split c b"
proof (induction a)
  case Nil
  show ?case by simp
next
  case (Cons x a)
  then show ?case
    by (cases "py_split c a") (auto simp: py_split_not_Nil)
qed

lemma py_split_no_sep: "c \<notin> set s \<Longrightarrow> py_split c s = [s]"
  by (induction s) auto







section \<open>Properties of the configuration loader\<close>

lemma bind_Inr_iff: "bind m f = Inr y \<longleftrightarrow> (\<exists>v. m = Inr v \<and> f v = Inr y)"
  by (cases m) (simp_all add: bind_def)

lemma bind_Inr: "bind (Inr v) f = f v"
  by (simp add: bind_def)

lemma py_getitem_Inr_iff:
  "py_getitem data k = Inr v \<longleftrightarrow> (\<exists>kvs. data = JObj kvs \<and> map_of kvs k = Some v)"
  by (cases data) (auto split: option.splits)

lemma dict_get_absent: "map_of kvs k = None \<Longrightarrow> dict_get kvs k d = d"
  by (simp add: dict_get_def)

lemma is_absolute_path_of_str: "is_absolute (path_of_str s) \<longleftrightarrow> take 1 s = ''/''"
  by (simp add: is_absolute_def path_of_str_def)

lemma joinpath_parent:
  "\<not> is_absolute q \<Longrightarrow> joinpath (parent p) q = Path (anchor p) (butlast (names p) @ names q)"
  by (simp add: joinpath_def parent_def)

lemma resolve_value_str:
  "resolve_value P p (JStr s) =
     Inr (if take 1 s = ''/'' then path_of_str s
          else resolve P (Path (anchor p) (butlast (names p) @ names (path_of_str s))))"
  by (simp add: resolve_value_def bind_def is_absolute_path_of_str joinpath_parent)

lemma resolve_value_InrD: "resolve_value P p v = Inr q \<Longrightarrow> \<exists>s. v = JStr s"
  by (cases v) (simp_all add: resolve_value_def bind_def)

lemma from_file_InrD: "from_file P p = Inr cfg \<Longrightarrow> \<exists>kvs. read_json P p = Inr (JObj kvs)"
  by (auto simp: from_file_def load_json_def bind_Inr_iff py_getitem_Inr_iff)

text \<open>When \<^verbatim>\<open>from_file\<close> returns, and what, on a file that holds a JSON object.\<close>

lemma from_file_obj_Inr_iff:
  assumes rd: "read_json P p = Inr (JObj kvs)"
  shows "from_file P p = Inr cfg \<longleftrightarrow>
     (\<exists>a b. map_of kvs ''dataset_index'' = Some (JStr a)
          \<and> map_of kvs ''checkpoint_dir'' = Some (JStr b)
          \<and> resolve_value P p (JStr a) = Inr (dataset_index cfg)
          \<and> resolve_value P p (JStr b) = Inr (checkpoint_dir cfg))
     \<and> py_int P (dict_get kvs ''steps'' (JInt 100)) = Inr (steps cfg)
     \<and> py_int P (dict_get kvs ''batch_size'' (JInt 32)) = Inr (batch_size cfg)
     \<and> py_float P (dict_get kvs ''learning_rate'' (JFloat (Finite (1 / 1000))))
         = Inr (learning_rate cfg)
     \<and> py_int P (dict_get kvs ''input_dim'' (JInt 128)) = Inr (input_dim cfg)
     \<and> py_int P (dict_get kvs ''output_dim'' (JInt 64)) = Inr (output_dim cfg)
     \<and> py_int P (dict_get kvs ''hidden_dim'' (JInt 128)) = Inr (hidden_dim cfg)
     \<and> dict_get kvs ''notes'' JNull = notes_opt cfg"
    (is "?L \<longleftrightarrow> ?R")
proof
  assume ?L
  then obtain v1 v2 where
      k1: "map_of kvs ''dataset_index'' = Some v1"
      and r1: "resolve_value P p v1 = Inr (dataset_index cfg)"
      and k2: "map_of kvs ''checkpoint_dir'' = Some v2"
      and r2: "resolve_value P p v2 = Inr (checkpoint_dir cfg)"
      and rest: "py_int P (dict_get kvs ''steps'' (JInt 100)) = Inr (steps cfg)"
        "py_int P (dict_get kvs ''batch_size'' (JInt 32)) = Inr (batch_size cfg)"
        "py_float P (dict_get kvs ''learning_rate'' (JFloat (Finite (1 / 1000))))
           = Inr (learning_rate cfg)"
        "py_int P (dict_get kvs ''input_dim'' (JInt 128)) = Inr (input_dim cfg)"
        "py_int P (dict_get kvs ''output_dim'' (JInt 64)) = Inr (output_dim cfg)"
        "py_int P (dict_get kvs ''hidden_dim'' (JInt 128)) = Inr (hidden_dim cfg)"
        "dict_get kvs ''notes'' JNull = notes_opt cfg"
    using rd
    by (auto simp: from_file_def load_json_def bind_Inr_iff py_getitem_Inr_iff)
  from resolve_value_InrD [OF r1] resolve_value_InrD [OF r2] k1 k2 r1 r2 rest
  show ?R by auto
next
  assume ?R
  then show ?L
    using rd
    by (cases cfg) (auto simp: from_file_def load_json_def bind_Inr)
qed

lemma example_read_json: "read_json (example_platform t doc) p = Inr doc"
  by (simp add: example_platform_def)

lemma example_from_file_defaults:
  "from_file (example_platform False (example_doc [])) example_path
   = Inr \<lparr>dataset_index = Path ''/'' [''etc'', ''d'', ''x''], checkpoint_dir = Path ''/'' [''c''],
          steps = 100, batch_size = 32, learning_rate = Finite (1 / 1000),
          input_dim = 128, output_dim = 64, hidden_dim = 128, notes_opt = JNull\<rparr>"
  by (simp add: from_file_def load_json_def example_platform_def example_doc_def
        example_path_def bind_def resolve_value_def path_of_str_def is_absolute_def
        joinpath_def parent_def dict_get_def)

text \<open>
  C4, as stated, fails. A file with \<^verbatim>\<open>"steps": -5\<close> and \<^verbatim>\<open>"batch_size": 0\<close> is
  loaded into a configuration that carries these values: \<^verbatim>\<open>from_file\<close> converts, it
  checks no range.
\<close>

theorem from_file_out_of_bounds_counterexample:
  "from_file (example_platform False
                (example_doc [(''steps'', JInt (- 5)), (''batch_size'', JInt 0)]))
     example_path
   = Inr \<lparr>dataset_index = Path ''/'' [''etc'', ''d'', ''x''], checkpoint_dir = Path ''/'' [''c''],
          steps = - 5, batch_size = 0, learning_rate = Finite (1 / 1000),
          input_dim = 128, output_dim = 64, hidden_dim = 128, notes_opt = JNull\<rparr>
   \<and> \<not> spec_bounds
        \<lparr>dataset_index = Path ''/'' [''etc'', ''d'', ''x''], checkpoint_dir = Path ''/'' [''c''],
         steps = - 5, batch_size = 0, learning_rate = Finite (1 / 1000),
         input_dim = 128, output_dim = 64, hidden_dim = 128, notes_opt = JNull\<rparr>"
  by (simp add: from_file_def load_json_def example_platform_def example_doc_def
        example_path_def bind_def resolve_value_def path_of_str_def is_absolute_def
        joinpath_def parent_def dict_get_def spec_bounds_def)

text \<open>
  C4, amended. Every configuration \<^verbatim>\<open>from_file\<close> produces comes from a JSON object,
  and each of its numeric fields is what \<^verbatim>\<open>int()\<close> (\<^verbatim>\<open>float()\<close> for the learning
  rate) gives on the entry of the file, or on the default 100, 32, 0.001, 128, 64, 128
  where the key is absent. So the bounds of the specification hold for the fields whose
  key is absent, and for all of them when no numeric key is present; for a key that is
  present they hold exactly when the converted value of the file satisfies them.
\<close>

theorem from_file_numeric_fields_unchecked:
  assumes ok: "from_file P p = Inr cfg"
  shows "\<exists>kvs. read_json P p = Inr (JObj kvs)
     \<and> py_int P (dict_get kvs ''steps'' (JInt 100)) = Inr (steps cfg)
     \<and> py_int P (dict_get kvs ''batch_size'' (JInt 32)) = Inr (batch_size cfg)
     \<and> py_float P (dict_get kvs ''learning_rate'' (JFloat (Finite (1 / 1000))))
         = Inr (learning_rate cfg)
     \<and> py_int P (dict_get kvs ''input_dim'' (JInt 128)) = Inr (input_dim cfg)
     \<and> py_int P (dict_get kvs ''output_dim'' (JInt 64)) = Inr (output_dim cfg)
     \<and> py_int P (dict_get kvs ''hidden_dim'' (JInt 128)) = Inr (hidden_dim cfg)
     \<and> (map_of kvs ''steps'' = None \<and> map_of kvs ''batch_size'' = None
          \<and> map_of kvs ''learning_rate'' = None \<and> map_of kvs ''input_dim'' = None
          \<and> map_of kvs ''output_dim'' = None \<and> map_of kvs ''hidden_dim'' = None
        \<longrightarrow> spec_bounds cfg)"
proof -
  from from_file_InrD [OF ok] obtain kvs where rd: "read_json P p = Inr (JObj kvs)" ..
  from ok from_file_obj_Inr_iff [OF rd, of cfg]
  have f: "py_int P (dict_get kvs ''steps'' (JInt 100)) = Inr (steps cfg)"
     "py_int P (dict_get kvs ''batch_size'' (JInt 32)) = Inr (batch_size cfg)"
     "py_float P (dict_get kvs ''learning_rate'' (JFloat (Finite (1 / 1000))))
        = Inr (learning_rate cfg)"
     "py_int P (dict_get kvs ''input_dim'' (JInt 128)) = Inr (input_dim cfg)"
     "py_int P (dict_get kvs ''output_dim'' (JInt 64)) = Inr (output_dim cfg)"
     "py_int P (dict_get kvs ''hidden_dim'' (JInt 128)) = Inr (hidden_dim cfg)"
    by blast+
  have "spec_bounds cfg"
    if "map_of kvs ''steps'' = None \<and> map_of kvs ''batch_size'' = None
          \<and> map_of kvs ''learning_rate'' = None \<and> map_of kvs ''input_dim'' = None
          \<and> map_of kvs ''output_dim'' = None \<and> map_of kvs ''hidden_dim'' = None"
    using that f(1,2,4,5,6) f(3) [symmetric]
    by (simp add: dict_get_absent spec_bounds_def)
  with rd f show ?thesis by blast
qed

theorem from_file_numeric_fields_unchecked_witness:
  "from_file (example_platform False (example_doc [])) example_path
   = Inr \<lparr>dataset_index = Path ''/'' [''etc'', ''d'', ''x''], checkpoint_dir = Path ''/'' [''c''],
          steps = 100, batch_size = 32, learning_rate = Finite (1 / 1000),
          input_dim = 128, output_dim = 64, hidden_dim = 128, notes_opt = JNull\<rparr>
   \<and> spec_bounds
        \<lparr>dataset_index = Path ''/'' [''etc'', ''d'', ''x''], checkpoint_dir = Path ''/'' [''c''],
         steps = 100, batch_size = 32, learning_rate = Finite (1 / 1000),
         input_dim = 128, output_dim = 64, hidden_dim = 128, notes_opt = JNull\<rparr>"
proof -
  note ok = example_from_file_defaults
  from from_file_numeric_fields_unchecked [OF ok] obtain kvs where
    rd: "read_json (example_platform False (example_doc [])) example_path = Inr (JObj kvs)"
    and imp: "map_of kvs ''steps'' = None \<and> map_of kvs ''batch_size'' = None
          \<and> map_of kvs ''learning_rate'' = None \<and> map_of kvs ''input_dim'' = None
          \<and> map_of kvs ''output_dim'' = None \<and> map_of kvs ''hidden_dim'' = None
        \<longrightarrow> spec_bounds
              \<lparr>dataset_index = Path ''/'' [''etc'', ''d'', ''x''],
               checkpoint_dir = Path ''/'' [''c''],
               steps = 100, batch_size = 32, learning_rate = Finite (1 / 1000),
               input_dim = 128, output_dim = 64, hidden_dim = 128, notes_opt = JNull\<rparr>"
    by blast
  from rd have "kvs = [(''dataset_index'', JStr ''d/x''), (''checkpoint_dir'', JStr ''/c'')]"
    by (simp add: example_read_json example_doc_def)
  with imp ok show ?thesis by simp
qed

text \<open>
  C5. Whenever \<^verbatim>\<open>from_file\<close> produces a configuration from the file at \<open>p\<close>, the
  entries \<^verbatim>\<open>dataset_index\<close> and \<^verbatim>\<open>checkpoint_dir\<close> of the file are strings; one
  that does not start with a slash (a relative path) becomes the directory of \<open>p\<close>, that
  is \<open>p\<close> without its last component, followed by the components of the value, as the
  file system resolves it; one that starts with a slash (an absolute path) becomes the
  path of the value itself, where neither \<open>p\<close> nor the file system has a part.
\<close>

theorem from_file_resolves_against_config_directory:
  assumes ok: "from_file P p = Inr cfg"
  shows "\<exists>kvs a b. read_json P p = Inr (JObj kvs)
     \<and> map_of kvs ''dataset_index'' = Some (JStr a)
     \<and> map_of kvs ''checkpoint_dir'' = Some (JStr b)
     \<and> dataset_index cfg =
          (if take 1 a = ''/'' then path_of_str a
           else resolve P (Path (anchor p) (butlast (names p) @ names (path_of_str a))))
     \<and> checkpoint_dir cfg =
          (if take 1 b = ''/'' then path_of_str b
           else resolve P (Path (anchor p) (butlast (names p) @ names (path_of_str b))))"
proof -
  from from_file_InrD [OF ok] obtain kvs where rd: "read_json P p = Inr (JObj kvs)" ..
  from ok from_file_obj_Inr_iff [OF rd, of cfg] obtain a b where
    "map_of kvs ''dataset_index'' = Some (JStr a)"
    "map_of kvs ''checkpoint_dir'' = Some (JStr b)"
    "resolve_value P p (JStr a) = Inr (dataset_index cfg)"
    "resolve_value P p (JStr b) = Inr (checkpoint_dir cfg)"
    by blast
  with rd show ?thesis
    by (simp add: resolve_value_str)
qed

theorem from_file_resolves_against_config_directory_witness:
  "from_file (example_platform False (example_doc [])) example_path
   = Inr \<lparr>dataset_index = Path ''/'' [''etc'', ''d'', ''x''], checkpoint_dir = Path ''/'' [''c''],
          steps = 100, batch_size = 32, learning_rate = Finite (1 / 1000),
          input_dim = 128, output_dim = 64, hidden_dim = 128, notes_opt = JNull\<rparr>
   \<and> Path ''/'' [''etc'', ''d'', ''x'']
       = resolve (example_platform False (example_doc []))
           (Path (anchor example_path)
              (butlast (names example_path) @ names (path_of_str ''d/x'')))
   \<and> Path ''/'' [''c''] = path_of_str ''/c''"
proof -
  note ok = example_from_file_defaults
  from from_file_resolves_against_config_directory [OF ok] obtain kvs a b where
    rd: "read_json (example_platform False (example_doc [])) example_path = Inr (JObj kvs)"
    and ka: "map_of kvs ''dataset_index'' = Some (JStr a)"
    and kb: "map_of kvs ''checkpoint_dir'' = Some (JStr b)"
    and di: "Path ''/'' [''etc'', ''d'', ''x''] =
          (if take 1 a = ''/'' then path_of_str a
           else resolve (example_platform False (example_doc []))
                  (Path (anchor example_path)
                     (butlast (names example_path) @ names (path_of_str a))))"
    and cd: "Path ''/'' [''c''] =
          (if take 1 b = ''/'' then path_of_str b
           else resolve (example_platform False (example_doc []))
                  (Path (anchor example_path)
                     (butlast (names example_path) @ names (path_of_str b))))"
    by auto
  from rd have kvs: "kvs = [(''dataset_index'', JStr ''d/x''), (''checkpoint_dir'', JStr ''/c'')]"
    by (simp add: example_read_json example_doc_def)
  from ka kvs have a: "a = ''d/x''" by simp
  from kb kvs have b: "b = ''/c''" by simp
  from di a have 1: "Path ''/'' [''etc'', ''d'', ''x'']
       = resolve (example_platform False (example_doc []))
           (Path (anchor example_path)
              (butlast (names example_path) @ names (path_of_str ''d/x'')))"
    by simp
  from cd b have 2: "Path ''/'' [''c''] = path_of_str ''/c''"
    by simp
  from ok 1 2 show ?thesis by blast
qed




section \<open>Properties of a session\<close>

lemma log_event_logs:
  "\<exists>r. logs (log_event P ctx e pl w) (log_file ctx) = logs w (log_file ctx) @ [r]
       \<and> event_of r = Some (JStr e) \<and> payload_of r = Some (JObj pl)"
  by (simp add: log_event_def Let_def event_of_def payload_of_def)

lemma log_event_others:
  "files (log_event P ctx e pl w) = files w \<and> dirs (log_event P ctx e pl w) = dirs w
   \<and> environ (log_event P ctx e pl w) = environ w"
  by (simp add: log_event_def Let_def)

lemma simulate_loop_range:
  "\<exists>E. logs (simulate_loop P ctx (map int [k..<n]) ((99 / 100) ^ k) w) (log_file ctx)
          = logs w (log_file ctx) @ E
     \<and> map (\<lambda>r. (event_of r, step_of r, loss_of r)) E
          = map (\<lambda>i. (Some (JStr ''step''), Some (JInt i),
                       Some (JFloat (Finite ((99 / 100) ^ Suc (nat i))))))
              (logged_steps (map int [k..<n]))
     \<and> files (simulate_loop P ctx (map int [k..<n]) ((99 / 100) ^ k) w) = files w
     \<and> dirs (simulate_loop P ctx (map int [k..<n]) ((99 / 100) ^ k) w) = dirs w
     \<and> environ (simulate_loop P ctx (map int [k..<n]) ((99 / 100) ^ k) w) = environ w"
proof (induction "n - k" arbitrary: k w)
  case 0
  then have "n \<le> k" by simp
  then show ?case by (simp add: logged_steps_def)
next
  case (Suc d)
  then have kn: "k < n" and d: "d = n - Suc k" by simp_all
  from kn have up: "[k..<n] = k # [Suc k..<n]" by (rule upt_conv_Cons)
  let ?pl = "[(''step'', JInt (int k)), (''loss'', JFloat (Finite ((99 / 100) ^ Suc k))),
              (''simulated'', JBool True)]"
  let ?w' = "if int k mod 10 = 0 then log_event P ctx ''step'' ?pl w else w"
  have unf: "simulate_loop P ctx (map int [k..<n]) ((99 / 100) ^ k) w
             = simulate_loop P ctx (map int [Suc k..<n]) ((99 / 100) ^ Suc k) ?w'"
    by (simp add: up Let_def del: power_Suc) (simp add: mult.commute)
  from Suc.hyps(1) [OF d, of ?w'] obtain E where
    E: "logs (simulate_loop P ctx (map int [Suc k..<n]) ((99 / 100) ^ Suc k) ?w') (log_file ctx)
          = logs ?w' (log_file ctx) @ E"
       "map (\<lambda>r. (event_of r, step_of r, loss_of r)) E
          = map (\<lambda>i. (Some (JStr ''step''), Some (JInt i),
                       Some (JFloat (Finite ((99 / 100) ^ Suc (nat i))))))
              (logged_steps (map int [Suc k..<n]))"
       "files (simulate_loop P ctx (map int [Suc k..<n]) ((99 / 100) ^ Suc k) ?w') = files ?w'"
       "dirs (simulate_loop P ctx (map int [Suc k..<n]) ((99 / 100) ^ Suc k) ?w') = dirs ?w'"
       "environ (simulate_loop P ctx (map int [Suc k..<n]) ((99 / 100) ^ Suc k) ?w') = environ ?w'"
    by blast
  show ?case
  proof (cases "int k mod 10 = 0")
    case True
    from log_event_logs [of P ctx "''step''" ?pl w] obtain r where
      r: "logs (log_event P ctx ''step'' ?pl w) (log_file ctx) = logs w (log_file ctx) @ [r]"
         "event_of r = Some (JStr ''step'')" "payload_of r = Some (JObj ?pl)"
      by blast
    have rs: "step_of r = Some (JInt (int k))"
             "loss_of r = Some (JFloat (Finite ((99 / 100) ^ Suc k)))"
      using r(3) by (simp_all add: step_of_def loss_of_def)
    have "logs (simulate_loop P ctx (map int [k..<n]) ((99 / 100) ^ k) w) (log_file ctx)
            = logs w (log_file ctx) @ (r # E)"
      using E(1) r(1) True by (simp add: unf)
    moreover have "map (\<lambda>r. (event_of r, step_of r, loss_of r)) (r # E)
          = map (\<lambda>i. (Some (JStr ''step''), Some (JInt i),
                       Some (JFloat (Finite ((99 / 100) ^ Suc (nat i))))))
              (logged_steps (map int [k..<n]))"
      using E(2) r(2) rs True by (simp add: up logged_steps_def del: power_Suc)
    ultimately show ?thesis
      using E(3,4,5) True log_event_others [of P ctx "''step''" ?pl w]
      unfolding unf by (intro exI [of _ "r # E"]) (simp del: power_Suc)
  next
    case False
    then show ?thesis
      using E unfolding unf by (intro exI [of _ E]) (simp add: up logged_steps_def del: power_Suc)
  qed
qed

lemma torch_loop_log:
  "torch_loop P ctx xs w = (w', None) \<Longrightarrow>
   \<exists>E. logs w' (log_file ctx) = logs w (log_file ctx) @ E
     \<and> map (\<lambda>r. (event_of r, step_of r)) E
          = map (\<lambda>i. (Some (JStr ''step''), Some (JInt i))) (logged_steps xs)
     \<and> files w' = files w \<and> dirs w' = dirs w \<and> environ w' = environ w"
proof (induction xs arbitrary: w)
  case Nil
  then show ?case by (simp add: logged_steps_def)
next
  case (Cons i xs)
  from Cons.prems obtain loss where ts: "torch_step P i = Some loss"
    by (cases "torch_step P i") auto
  let ?pl = "[(''step'', JInt i), (''loss'', JFloat loss)]"
  let ?w1 = "if i mod 10 = 0 then log_event P ctx ''step'' ?pl w else w"
  from Cons.prems ts have "torch_loop P ctx xs ?w1 = (w', None)" by simp
  from Cons.IH [OF this] obtain E where
    E: "logs w' (log_file ctx) = logs ?w1 (log_file ctx) @ E"
       "map (\<lambda>r. (event_of r, step_of r)) E
          = map (\<lambda>i. (Some (JStr ''step''), Some (JInt i))) (logged_steps xs)"
       "files w' = files ?w1" "dirs w' = dirs ?w1" "environ w' = environ ?w1"
    by blast
  show ?case
  proof (cases "i mod 10 = 0")
    case True
    from log_event_logs [of P ctx "''step''" ?pl w] obtain r where
      r: "logs (log_event P ctx ''step'' ?pl w) (log_file ctx) = logs w (log_file ctx) @ [r]"
         "event_of r = Some (JStr ''step'')" "payload_of r = Some (JObj ?pl)"
      by blast
    have rs: "step_of r = Some (JInt i)"
      using r(3) by (simp add: step_of_def)
    have "logs w' (log_file ctx) = logs w (log_file ctx) @ (r # E)"
      using E(1) r(1) True by simp
    moreover have "map (\<lambda>r. (event_of r, step_of r)) (r # E)
          = map (\<lambda>i. (Some (JStr ''step''), Some (JInt i))) (logged_steps (i # xs))"
      using E(2) r(2) rs True by (simp add: logged_steps_def)
    ultimately show ?thesis
      using E(3,4,5) True log_event_others [of P ctx "''step''" ?pl w]
      by (intro exI [of _ "r # E"]) simp
  next
    case False
    then show ?thesis
      using E by (intro exI [of _ E]) (simp add: logged_steps_def)
  qed
qed

lemma py_str_nat_digits: "set (py_str_nat n) \<subseteq> set ''0123456789''"
proof (induction n rule: py_str_nat.induct)
  case (1 n)
  have d: "''0123456789'' ! k \<in> set ''0123456789''" if "k < 10" for k
    using that nth_mem [of k "''0123456789''"] by simp
  show ?case
  proof (cases "n < 10")
    case True
    with d [of n] show ?thesis by (subst py_str_nat.simps) simp
  next
    case False
    with 1 have ih: "set (py_str_nat (n div 10)) \<subseteq> set ''0123456789''" by simp
    have "n mod 10 < 10" by simp
    from d [OF this] ih False show ?thesis
      by (subst py_str_nat.simps) simp
  qed
qed

lemma slash_notin_py_str_int: "CHR ''/'' \<notin> set (py_str_int i)"
  using py_str_nat_digits [of "nat i"] py_str_nat_digits [of "nat (- i)"]
  by (auto simp: py_str_int_def)

lemma path_of_meta_name:
  "path_of_str (checkpoint_id t @ ''.meta.json'') = Path [] [checkpoint_id t @ ''.meta.json'']"
proof -
  let ?s = "checkpoint_id t @ ''.meta.json''"
  have ns: "CHR ''/'' \<notin> set ?s"
    using slash_notin_py_str_int by (simp add: checkpoint_id_def)
  then have sp: "py_split (CHR ''/'') ?s = [?s]" by (rule py_split_no_sep)
  have hd: "take 1 ?s = ''c''" by (simp add: checkpoint_id_def)
  have ne: "?s \<noteq> [] \<and> ?s \<noteq> ''.''" by (simp add: checkpoint_id_def)
  show ?thesis
    unfolding path_of_str_def sp using hd ne by simp
qed

lemma meta_path_inside:
  "joinpath cd (path_of_str (checkpoint_id t @ ''.meta.json''))
   = Path (anchor cd) (names cd @ [checkpoint_id t @ ''.meta.json''])"
  by (simp add: path_of_meta_name joinpath_def is_absolute_def)


lemma write_checkpoint_effect:
  "\<exists>r. logs (write_checkpoint P ctx w) (log_file ctx) = logs w (log_file ctx) @ [r]
     \<and> event_of r = Some (JStr ''checkpoint'')
     \<and> payload_of r = Some (JObj [(''meta'', JStr (py_str_path
          (Path (anchor (checkpoint_dir (config ctx)))
             (names (checkpoint_dir (config ctx))
              @ [checkpoint_id (time_time P (clock w)) @ ''.meta.json'']))))])
     \<and> files (write_checkpoint P ctx w)
        = (files w)(Path (anchor (checkpoint_dir (config ctx)))
             (names (checkpoint_dir (config ctx))
              @ [checkpoint_id (time_time P (clock w)) @ ''.meta.json''])
           \<mapsto> JObj [(''id'', JStr (checkpoint_id (time_time P (clock w)))),
                  (''model'', JStr ''pytorch_runner_stub''),
                  (''created_at'',
                   JStr (strftime_gmtime P ''%Y-%m-%dT%H:%M:%SZ'' (time_time P (Suc (clock w))))),
                  (''training_step'', JInt (steps (config ctx))),
                  (''devices'', JList (map JStr (devices ctx))),
                  (''notes'', notes_opt (config ctx))])
     \<and> dirs (write_checkpoint P ctx w) = dirs w \<union> ancestors (checkpoint_dir (config ctx))
     \<and> environ (write_checkpoint P ctx w) = environ w"
  by (simp add: write_checkpoint_def Let_def log_event_def mkdir_parents_def event_of_def
        payload_of_def meta_path_inside)

lemma select_torch_device_total:
  "\<exists>d w1. select_torch_device P ctx w = Inr (d, w1)
     \<and> logs w1 = logs w \<and> files w1 = files w \<and> dirs w1 = dirs w \<and> clock w1 = clock w
     \<and> (d = ''cpu'' \<and> w1 = w \<or> d = ''cuda:0'' \<and> cuda_is_available P)"
proof (cases "devices ctx")
  case Nil
  then show ?thesis by (simp add: select_torch_device_def)
next
  case (Cons preferred rest)
  show ?thesis
  proof (cases "startswith preferred ''cuda'' \<and> cuda_is_available P")
    case False
    with Cons show ?thesis by (auto simp: select_torch_device_def)
  next
    case True
    show ?thesis
    proof (cases "CHR '':'' \<in> set preferred")
      case False
      with True Cons show ?thesis by (simp add: select_torch_device_def bind_def)
    next
      case c: True
      then obtain a b where ab: "preferred = a @ CHR '':'' # b"
        by (auto simp: in_set_conv_decomp)
      have "1 < length (py_split (CHR '':'') preferred)"
        unfolding ab py_split_append_sep
        using py_split_not_Nil [of "CHR '':''" a] py_split_not_Nil [of "CHR '':''" b]
        by (cases "py_split (CHR '':'') a"; cases "py_split (CHR '':'') b") simp_all
      with True Cons c show ?thesis
        by (simp add: select_torch_device_def bind_def py_index_def)
    qed
  qed
qed

lemma py_range_0: "py_range n = map int [0..<nat n]"
  by (simp add: py_range_def)

lemma run_completed:
  fixes P ctx w
  defines "cd \<equiv> checkpoint_dir (config ctx)"
  defines "ls \<equiv> logged_steps (py_range (steps (config ctx)))"
  assumes run: "run P ctx w = (w', None)"
  shows "\<exists>k s E c f.
      logs w' (log_file ctx) = logs w (log_file ctx) @ s # E @ [c, f]
    \<and> event_of s = Some (JStr ''session_start'')
    \<and> payload_of s = Some (JObj [(''profile'', JStr (profile ctx)),
                                  (''devices'', JList (map JStr (devices ctx)))])
    \<and> map (\<lambda>r. (event_of r, step_of r)) E
        = map (\<lambda>i. (Some (JStr ''step''), Some (JInt i))) ls
    \<and> (\<not> TORCH_AVAILABLE P \<longrightarrow>
          map loss_of E = map (\<lambda>i. Some (JFloat (Finite ((99 / 100) ^ Suc (nat i))))) ls)
    \<and> event_of c = Some (JStr ''checkpoint'')
    \<and> payload_of c = Some (JObj [(''meta'', JStr (py_str_path
          (Path (anchor cd) (names cd @ [checkpoint_id (time_time P k) @ ''.meta.json'']))))])
    \<and> event_of f = Some (JStr ''session_complete'')
    \<and> payload_of f = Some (JObj [])
    \<and> files w'
        = (files w)(Path (anchor cd) (names cd @ [checkpoint_id (time_time P k) @ ''.meta.json''])
           \<mapsto> JObj [(''id'', JStr (checkpoint_id (time_time P k))),
                  (''model'', JStr ''pytorch_runner_stub''),
                  (''created_at'',
                   JStr (strftime_gmtime P ''%Y-%m-%dT%H:%M:%SZ'' (time_time P (Suc k)))),
                  (''training_step'', JInt (steps (config ctx))),
                  (''devices'', JList (map JStr (devices ctx))),
                  (''notes'', notes_opt (config ctx))])
    \<and> dirs w' = dirs w \<union> ancestors cd"
proof -
  let ?pl = "[(''profile'', JStr (profile ctx)), (''devices'', JList (map JStr (devices ctx)))]"
  let ?w1 = "log_event P ctx ''session_start'' ?pl w"
  from log_event_logs [of P ctx "''session_start''" ?pl w] obtain s where
    s: "logs ?w1 (log_file ctx) = logs w (log_file ctx) @ [s]"
       "event_of s = Some (JStr ''session_start'')" "payload_of s = Some (JObj ?pl)"
    by blast
  note o1 = log_event_others [of P ctx "''session_start''" ?pl w]
  \<comment> \<open>the world before the checkpoint is written\<close>
  have "\<exists>w2 E. w' = log_event P ctx ''session_complete'' [] (write_checkpoint P ctx w2)
      \<and> logs w2 (log_file ctx) = logs ?w1 (log_file ctx) @ E
      \<and> map (\<lambda>r. (event_of r, step_of r)) E
          = map (\<lambda>i. (Some (JStr ''step''), Some (JInt i))) ls
      \<and> (\<not> TORCH_AVAILABLE P \<longrightarrow>
          map loss_of E = map (\<lambda>i. Some (JFloat (Finite ((99 / 100) ^ Suc (nat i))))) ls)
      \<and> files w2 = files ?w1 \<and> dirs w2 = dirs ?w1"
  proof (cases "TORCH_AVAILABLE P")
    case False
    let ?w2 = "simulate_loop P ctx (py_range (steps (config ctx))) 1 ?w1"
    from run False have w': "w' = log_event P ctx ''session_complete'' [] (write_checkpoint P ctx ?w2)"
      by (simp add: run_def simulate_def Let_def)
    from simulate_loop_range [of P ctx 0 "nat (steps (config ctx))" ?w1] obtain E where
      E: "logs ?w2 (log_file ctx) = logs ?w1 (log_file ctx) @ E"
         "map (\<lambda>r. (event_of r, step_of r, loss_of r)) E
          = map (\<lambda>i. (Some (JStr ''step''), Some (JInt i),
                       Some (JFloat (Finite ((99 / 100) ^ Suc (nat i)))))) ls"
         "files ?w2 = files ?w1" "dirs ?w2 = dirs ?w1"
      unfolding ls_def py_range_0 by auto
    from arg_cong [OF E(2), of "map (\<lambda>t. (fst t, fst (snd t)))"]
    have e2: "map (\<lambda>r. (event_of r, step_of r)) E
          = map (\<lambda>i. (Some (JStr ''step''), Some (JInt i))) ls"
      by (simp add: o_def)
    from arg_cong [OF E(2), of "map (\<lambda>t. snd (snd t))"]
    have e3: "map loss_of E = map (\<lambda>i. Some (JFloat (Finite ((99 / 100) ^ Suc (nat i))))) ls"
      by (simp add: o_def del: power_Suc)
    from w' E(1,3,4) e2 e3 show ?thesis by blast
  next
    case True
    from select_torch_device_total [of P ctx ?w1] obtain d w1' where
      sel: "select_torch_device P ctx ?w1 = Inr (d, w1')"
      and same: "logs w1' = logs ?w1" "files w1' = files ?w1" "dirs w1' = dirs ?w1"
      by blast
    from run True have rt: "run_torch P ctx ?w1
        = (fst (run_torch P ctx ?w1), None)
      \<and> w' = log_event P ctx ''session_complete'' [] (fst (run_torch P ctx ?w1))"
      by (cases "run_torch P ctx ?w1") (auto simp: run_def Let_def split: option.splits)
    from rt sel have built: "torch_setup P d (config ctx)"
      by (auto simp: run_torch_def split: if_splits)
    obtain w3 e where tl: "torch_loop P ctx (py_range (steps (config ctx))) w1' = (w3, e)"
      by (cases "torch_loop P ctx (py_range (steps (config ctx))) w1'") auto
    from rt sel built tl have en: "e = None"
      by (cases e) (auto simp: run_torch_def)
    from rt sel built tl en have w': "w' = log_event P ctx ''session_complete'' [] (write_checkpoint P ctx w3)"
      by (simp add: run_torch_def)
    from torch_loop_log [OF tl [unfolded en]] obtain E where
      E: "logs w3 (log_file ctx) = logs w1' (log_file ctx) @ E"
         "map (\<lambda>r. (event_of r, step_of r)) E
          = map (\<lambda>i. (Some (JStr ''step''), Some (JInt i))) ls"
         "files w3 = files w1'" "dirs w3 = dirs w1'"
      unfolding ls_def by blast
    from w' E same True show ?thesis by auto
  qed
  then obtain w2 E where
    w': "w' = log_event P ctx ''session_complete'' [] (write_checkpoint P ctx w2)"
    and E: "logs w2 (log_file ctx) = logs ?w1 (log_file ctx) @ E"
      "map (\<lambda>r. (event_of r, step_of r)) E
          = map (\<lambda>i. (Some (JStr ''step''), Some (JInt i))) ls"
      "\<not> TORCH_AVAILABLE P \<longrightarrow>
          map loss_of E = map (\<lambda>i. Some (JFloat (Finite ((99 / 100) ^ Suc (nat i))))) ls"
    and same: "files w2 = files ?w1" "dirs w2 = dirs ?w1"
    by blast
  let ?w3 = "write_checkpoint P ctx w2"
  from write_checkpoint_effect [of P ctx w2] obtain c where
    c: "logs ?w3 (log_file ctx) = logs w2 (log_file ctx) @ [c]"
       "event_of c = Some (JStr ''checkpoint'')"
       "payload_of c = Some (JObj [(''meta'', JStr (py_str_path
          (Path (anchor cd) (names cd @ [checkpoint_id (time_time P (clock w2)) @ ''.meta.json'']))))])"
       "files ?w3
        = (files w2)(Path (anchor cd) (names cd @ [checkpoint_id (time_time P (clock w2)) @ ''.meta.json''])
           \<mapsto> JObj [(''id'', JStr (checkpoint_id (time_time P (clock w2)))),
                  (''model'', JStr ''pytorch_runner_stub''),
                  (''created_at'',
                   JStr (strftime_gmtime P ''%Y-%m-%dT%H:%M:%SZ'' (time_time P (Suc (clock w2))))),
                  (''training_step'', JInt (steps (config ctx))),
                  (''devices'', JList (map JStr (devices ctx))),
                  (''notes'', notes_opt (config ctx))])"
       "dirs ?w3 = dirs w2 \<union> ancestors cd"
    unfolding cd_def by blast
  from log_event_logs [of P ctx "''session_complete''" "[]" ?w3] obtain f where
    f: "logs w' (log_file ctx) = logs ?w3 (log_file ctx) @ [f]"
       "event_of f = Some (JStr ''session_complete'')" "payload_of f = Some (JObj [])"
    unfolding w' by blast
  note o3 = log_event_others [of P ctx "''session_complete''" "[]" ?w3]
  have L: "logs w' (log_file ctx) = logs w (log_file ctx) @ s # E @ [c, f]"
    using f(1) c(1) E(1) s(1) by simp
  have F: "files w' = (files w)(Path (anchor cd) (names cd @ [checkpoint_id (time_time P (clock w2)) @ ''.meta.json''])
           \<mapsto> JObj [(''id'', JStr (checkpoint_id (time_time P (clock w2)))),
                  (''model'', JStr ''pytorch_runner_stub''),
                  (''created_at'',
                   JStr (strftime_gmtime P ''%Y-%m-%dT%H:%M:%SZ'' (time_time P (Suc (clock w2))))),
                  (''training_step'', JInt (steps (config ctx))),
                  (''devices'', JList (map JStr (devices ctx))),
                  (''notes'', notes_opt (config ctx))])"
    using o3 c(4) same(1) o1 unfolding w' by simp
  have D: "dirs w' = dirs w \<union> ancestors cd"
    using o3 c(5) same(2) o1 unfolding w' by simp
  from L s(2,3) E(2,3) c(2,3) f(2,3) F D show ?thesis by blast
qed








lemma appended_append: "appended xs (xs @ ys) = ys"
  by (simp add: appended_def)




lemma run_result: "snd (run P ctx w) = None \<Longrightarrow> run P ctx w = (fst (run P ctx w), None)"
  by (cases "run P ctx w") simp

text \<open>
  C3. Whenever a run completes, on either path and for every step count (0 and negative
  ones included), it has written one metadata file, the one the \<^verbatim>\<open>checkpoint\<close> record
  of the run names, and the \<^verbatim>\<open>training_step\<close> entry of that file is the step count of
  the configuration; no other metadata file has changed.
\<close>

theorem checkpoint_training_step_is_config_steps:
  assumes fin: "snd (run P ctx w) = None"
  shows "\<exists>mp meta c.
       files (fst (run P ctx w)) mp = Some (JObj meta)
     \<and> map_of meta ''training_step'' = Some (JInt (steps (config ctx)))
     \<and> (\<forall>q. q \<noteq> mp \<longrightarrow> files (fst (run P ctx w)) q = files w q)
     \<and> c \<in> set (appended (logs w (log_file ctx)) (logs (fst (run P ctx w)) (log_file ctx)))
     \<and> event_of c = Some (JStr ''checkpoint'')
     \<and> payload_of c = Some (JObj [(''meta'', JStr (py_str_path mp))])"
proof -
  from run_completed [OF run_result [OF fin]] obtain k s E c f where
    L: "logs (fst (run P ctx w)) (log_file ctx) = logs w (log_file ctx) @ s # E @ [c, f]"
    and c: "event_of c = Some (JStr ''checkpoint'')"
      "payload_of c = Some (JObj [(''meta'', JStr (py_str_path
          (Path (anchor (checkpoint_dir (config ctx)))
             (names (checkpoint_dir (config ctx))
                @ [checkpoint_id (time_time P k) @ ''.meta.json'']))))])"
    and F: "files (fst (run P ctx w))
        = (files w)(Path (anchor (checkpoint_dir (config ctx)))
             (names (checkpoint_dir (config ctx))
                @ [checkpoint_id (time_time P k) @ ''.meta.json''])
           \<mapsto> JObj [(''id'', JStr (checkpoint_id (time_time P k))),
                  (''model'', JStr ''pytorch_runner_stub''),
                  (''created_at'',
                   JStr (strftime_gmtime P ''%Y-%m-%dT%H:%M:%SZ'' (time_time P (Suc k)))),
                  (''training_step'', JInt (steps (config ctx))),
                  (''devices'', JList (map JStr (devices ctx))),
                  (''notes'', notes_opt (config ctx))])"
    by blast
  let ?mp = "Path (anchor (checkpoint_dir (config ctx)))
             (names (checkpoint_dir (config ctx))
                @ [checkpoint_id (time_time P k) @ ''.meta.json''])"
  let ?meta = "[(''id'', JStr (checkpoint_id (time_time P k))),
                  (''model'', JStr ''pytorch_runner_stub''),
                  (''created_at'',
                   JStr (strftime_gmtime P ''%Y-%m-%dT%H:%M:%SZ'' (time_time P (Suc k)))),
                  (''training_step'', JInt (steps (config ctx))),
                  (''devices'', JList (map JStr (devices ctx))),
                  (''notes'', notes_opt (config ctx))]"
  have 1: "files (fst (run P ctx w)) ?mp = Some (JObj ?meta)" by (simp add: F)
  have 2: "map_of ?meta ''training_step'' = Some (JInt (steps (config ctx)))" by simp
  have 3: "\<forall>q. q \<noteq> ?mp \<longrightarrow> files (fst (run P ctx w)) q = files w q" by (simp add: F)
  have 4: "c \<in> set (appended (logs w (log_file ctx)) (logs (fst (run P ctx w)) (log_file ctx)))"
    by (simp add: L appended_append)
  from 1 2 3 4 c show ?thesis by blast
qed

lemma example_torch_run0_completes:
  "snd (run (example_platform True JNull) (example_ctx 0 []) empty_world) = None"
  by (simp add: run_def run_torch_def select_torch_device_def
        example_platform_def example_ctx_def example_config_def py_range_def Let_def)

theorem checkpoint_training_step_is_config_steps_witness:
  "\<exists>mp meta.
       files (fst (run (example_platform True JNull) (example_ctx 0 []) empty_world)) mp
         = Some (JObj meta)
     \<and> map_of meta ''training_step'' = Some (JInt 0)"
proof -
  note h = example_torch_run0_completes
  from checkpoint_training_step_is_config_steps [OF h] obtain mp meta where
    "files (fst (run (example_platform True JNull) (example_ctx 0 []) empty_world)) mp
         = Some (JObj meta)"
    "map_of meta ''training_step'' = Some (JInt (steps (config (example_ctx 0 []))))"
    by blast
  moreover have "steps (config (example_ctx 0 [])) = 0"
    by (simp add: example_ctx_def example_config_def)
  ultimately show ?thesis by auto
qed




text \<open>
  C6. Device selection never raises, whatever the device list. When no accelerator is
  available (\<^verbatim>\<open>torch.cuda.is_available()\<close> is false) it returns \<^verbatim>\<open>"cpu"\<close> and leaves
  the environment as it was, also for a list whose first entry is \<^verbatim>\<open>"cuda"\<close> or
  \<^verbatim>\<open>"cuda:1"\<close>, and the torch path then builds and trains its model on \<^verbatim>\<open>"cpu"\<close>.
\<close>

theorem select_torch_device_falls_back_to_cpu:
  "(\<exists>d w1. select_torch_device P ctx w = Inr (d, w1))
   \<and> (\<not> cuda_is_available P \<longrightarrow> select_torch_device P ctx w = Inr (''cpu'', w))
   \<and> (\<not> cuda_is_available P \<longrightarrow>
        run_torch P ctx w =
          (if \<not> torch_setup P ''cpu'' (config ctx) then (w, Some RuntimeError)
           else (case torch_loop P ctx (py_range (steps (config ctx))) w of
                   (w2, Some e) \<Rightarrow> (w2, Some e)
                 | (w2, None) \<Rightarrow> (write_checkpoint P ctx w2, None))))"
proof -
  from select_torch_device_total [of P ctx w]
  have 1: "\<exists>d w1. select_torch_device P ctx w = Inr (d, w1)" by blast
  have 2: "select_torch_device P ctx w = Inr (''cpu'', w)" if "\<not> cuda_is_available P"
    using that by (cases "devices ctx") (simp_all add: select_torch_device_def)
  have 3: "run_torch P ctx w =
          (if \<not> torch_setup P ''cpu'' (config ctx) then (w, Some RuntimeError)
           else (case torch_loop P ctx (py_range (steps (config ctx))) w of
                   (w2, Some e) \<Rightarrow> (w2, Some e)
                 | (w2, None) \<Rightarrow> (write_checkpoint P ctx w2, None)))"
    if "\<not> cuda_is_available P"
    using 2 [OF that] by (simp add: run_torch_def)
  from 1 2 3 show ?thesis by blast
qed

theorem select_torch_device_falls_back_to_cpu_witness:
  "select_torch_device (example_platform True JNull) (example_ctx 20 [''cuda:1'', ''cpu'']) empty_world
   = Inr (''cpu'', empty_world)"
proof -
  have h: "\<not> cuda_is_available (example_platform True JNull)"
    by (simp add: example_platform_def)
  from select_torch_device_falls_back_to_cpu [of "example_platform True JNull" "example_ctx 20 [''cuda:1'', ''cpu'']" empty_world] h
  show ?thesis by blast
qed










end
